theory Spec2Isabelle
  imports Main
begin

section \<open>The capability proxies of FabricObserver\<close>

text \<open>
  The three programs \<^verbatim>\<open>elevated_docker_stats.c\<close>, \<^verbatim>\<open>elevated_netstat.c\<close> and
  \<^verbatim>\<open>elevated_proc_fd.c\<close> are embedded as functions on an explicit process state.
  A statement of the C source is a state transformer; a sequence of statements is a
  \<open>block\<close> of them, run in the order of the source. Every
  library or system call appends an event to the trace of the process. The answers of
  the kernel that the programs branch on (the return values of \<^verbatim>\<open>prctl\<close>,
  \<^verbatim>\<open>pipe\<close>, \<^verbatim>\<open>fork\<close> and \<^verbatim>\<open>execv\<close>) are read from an environment.
\<close>

subsection \<open>Data\<close>

text \<open>The capability identifiers the sources name (\<^verbatim>\<open>cap_value_t\<close>).\<close>

datatype cap_value_t = CAP_DAC_OVERRIDE | CAP_DAC_READ_SEARCH | CAP_SYS_PTRACE

text \<open>The two \<^verbatim>\<open>char[32]\<close> buffers of \<^verbatim>\<open>elevated_proc_fd.c\<close>.\<close>

datatype buffer = LSBIN | PROCFDPARAM

text \<open>
  A value of type \<^verbatim>\<open>char*\<close>: the null pointer, the address of a string literal, the
  address of one of the buffers, or the indeterminate content of a slot that was never
  assigned.
\<close>

datatype cptr = NULL | Lit string | Buf buffer | Indeterminate

text \<open>What a file descriptor refers to.\<close>

datatype fdesc = Inherited int | PipeRead | PipeWrite

text \<open>Undefined behaviour of the C program, made a value.\<close>

datatype fault = NullDereference | ArgvOutOfBounds | BufferOverflow
  | IndeterminateValue | UnterminatedVector

datatype event =
    Printf string
  | ArgvRead nat
  | CapGetProc
  | CapSetFlag "cap_value_t list"
  | CapSetProc
  | CapFree
  | PrctlAmbientRaise cap_value_t
  | Pipe
  | Fork
  | Dup2 int int
  | Close int
  | Execv string "string list"

text \<open>
  How the proxy's own code ends: \<open>main\<close> returns a value, the process image is replaced
  by a successful \<^verbatim>\<open>execv\<close> (target path and argument strings), or the behaviour is
  undefined.
\<close>

datatype outcome = Exited int | Replaced string "string list" | Crashed fault

text \<open>
  The answers of the kernel. \<open>prctl_ret\<close> is the return value of the ambient raise of a
  capability; \<open>pipe_ret\<close> the two descriptors \<^verbatim>\<open>pipe\<close> stores (read end, write end),
  or \<open>None\<close> when it fails and stores nothing; \<open>fork_ret\<close> the return value of
  \<^verbatim>\<open>fork\<close> in the process that is followed (positive in the parent, zero in the
  child, \<open>-1\<close> when no child was created); \<open>execv_ok\<close> tells whether the image at a
  path can be executed. \<open>fds0\<close> is the descriptor table the proxy starts with,
  \<open>stack_pipe_fds\<close> the indeterminate initial content of the array
  \<^verbatim>\<open>pipe_fds\<close>, and \<open>stdout_tty\<close> tells whether descriptor 1 is a terminal when the
  proxy starts, which decides how \<^verbatim>\<open>stdout\<close> is buffered.
\<close>

record env =
  prctl_ret :: "cap_value_t \<Rightarrow> int"
  pipe_ret :: "(int \<times> int) option"
  fork_ret :: int
  execv_ok :: "string \<Rightarrow> bool"
  fds0 :: "int \<Rightarrow> fdesc option"
  stack_pipe_fds :: "int \<times> int"
  stdout_tty :: bool

text \<open>
  The state of the process: the calls made so far, the outcome once the proxy's code has
  stopped running (\<open>None\<close> while it runs), the descriptor table, and the local variables
  of \<open>main\<close> in \<^verbatim>\<open>elevated_proc_fd.c\<close>. A buffer holds the string before its
  terminator, or \<open>None\<close> while it is uninitialised. \<open>stdout_buf\<close> is the text
  \<^verbatim>\<open>printf\<close> has stored in the buffer of \<^verbatim>\<open>stdout\<close> and that is not written yet;
  \<open>stdout_written\<close> is the text that has been written to descriptor 1.
\<close>

record pstate =
  trace :: "event list"
  status :: "outcome option"
  fdtab :: "int \<Rightarrow> fdesc option"
  lsbin :: "string option"
  procFDParam :: "string option"
  ls_args :: "cptr list"
  pipe_fds :: "int \<times> int"
  stdout_buf :: string
  stdout_written :: string

definition init :: "env \<Rightarrow> pstate" where
  "init e = \<lparr>trace = [], status = None, fdtab = fds0 e, lsbin = None,
     procFDParam = None, ls_args = replicate 64 Indeterminate,
     pipe_fds = stack_pipe_fds e, stdout_buf = [], stdout_written = []\<rparr>"

subsection \<open>Statements\<close>

text \<open>A statement runs only while the proxy's code is still running.\<close>

definition stmt :: "(pstate \<Rightarrow> pstate) \<Rightarrow> pstate \<Rightarrow> pstate" where
  "stmt f s = (if status s = None then f s else s)"

text \<open>A sequence of statements: each runs on the state the one before it left.\<close>

primrec block :: "(pstate \<Rightarrow> pstate) list \<Rightarrow> pstate \<Rightarrow> pstate" where
  "block [] s = s"
| "block (f # fs) s = block fs (f s)"

definition emit :: "event \<Rightarrow> pstate \<Rightarrow> pstate" where
  "emit ev s = s\<lparr>trace := trace s @ [ev]\<rparr>"

definition crash :: "fault \<Rightarrow> pstate \<Rightarrow> pstate" where
  "crash f s = s\<lparr>status := Some (Crashed f)\<rparr>"

text \<open>
  \<^verbatim>\<open>printf\<close> appends its text to the buffer of \<^verbatim>\<open>stdout\<close>. None of the sources
  sets the buffering or flushes, so the C library decides: when descriptor 1 is a
  terminal the stream is line buffered and the buffer is written through its last
  newline at once; otherwise the stream is fully buffered and the text stays in the
  buffer (the texts of these programs are far shorter than it). The buffer is written
  when \<open>main\<close> returns, and it is lost with the image when \<^verbatim>\<open>execv\<close> succeeds.
\<close>

definition through_last_newline :: "string \<Rightarrow> string" where
  "through_last_newline b = rev (dropWhile (\<lambda>c. c \<noteq> CHR 0x0A) (rev b))"

definition after_last_newline :: "string \<Rightarrow> string" where
  "after_last_newline b = rev (takeWhile (\<lambda>c. c \<noteq> CHR 0x0A) (rev b))"

definition printf :: "env \<Rightarrow> string \<Rightarrow> pstate \<Rightarrow> pstate" where
  "printf e str = stmt (\<lambda>s.
     (emit (Printf str) s)
       \<lparr>stdout_buf :=
          (if stdout_tty e then after_last_newline (stdout_buf s @ str)
           else stdout_buf s @ str),
        stdout_written :=
          stdout_written s @
          (if stdout_tty e then through_last_newline (stdout_buf s @ str) else [])\<rparr>)"

definition return_main :: "int \<Rightarrow> pstate \<Rightarrow> pstate" where
  "return_main n = stmt (\<lambda>s.
     s\<lparr>status := Some (Exited n),
       stdout_buf := [],
       stdout_written := stdout_written s @ stdout_buf s\<rparr>)"

text \<open>
  Reaching the closing brace of \<open>main\<close> returns 0 (C99 and later; none of the three
  sources ends \<open>main\<close> with a \<^verbatim>\<open>return\<close>).
\<close>

definition end_of_main :: "pstate \<Rightarrow> pstate" where
  "end_of_main = return_main 0"

subsubsection \<open>The argument list\<close>

text \<open>
  \<open>args\<close> is the whole argument list of the process, program name first, so
  \<^verbatim>\<open>argc\<close> is its length. \<^verbatim>\<open>argv[i]\<close> is a string for \<open>i < argc\<close>, the null
  pointer for \<open>i = argc\<close>, and outside the array beyond. The two uses of
  \<^verbatim>\<open>argv[1]\<close> in the source both hand the pointer to a string function, which
  dereferences it.
\<close>

definition argc :: "string list \<Rightarrow> int" where
  "argc args = int (length args)"

definition argv_string :: "string list \<Rightarrow> nat \<Rightarrow> (string \<Rightarrow> pstate \<Rightarrow> pstate) \<Rightarrow> pstate \<Rightarrow> pstate" where
  "argv_string args i k = stmt (\<lambda>s.
     let s' = emit (ArgvRead i) s in
     if i < length args then k (args ! i) s'
     else if i = length args then crash NullDereference s'
     else crash ArgvOutOfBounds s')"

subsubsection \<open>String buffers\<close>

definition buf_get :: "buffer \<Rightarrow> pstate \<Rightarrow> string option" where
  "buf_get b s = (case b of LSBIN \<Rightarrow> lsbin s | PROCFDPARAM \<Rightarrow> procFDParam s)"

definition buf_set :: "buffer \<Rightarrow> string \<Rightarrow> pstate \<Rightarrow> pstate" where
  "buf_set b v s = (case b of LSBIN \<Rightarrow> s\<lparr>lsbin := Some v\<rparr>
                            | PROCFDPARAM \<Rightarrow> s\<lparr>procFDParam := Some v\<rparr>)"

text \<open>
  Both buffers are declared \<^verbatim>\<open>char[32]\<close>. A C string is modelled by the bytes
  before its terminator, so a string of length \<open>n\<close> occupies \<open>n + 1\<close> bytes.
\<close>

definition buf_size :: nat where
  "buf_size = 32"

text \<open>
  \<^verbatim>\<open>strcpy\<close> and \<^verbatim>\<open>strcat\<close> check nothing: they write the string and its
  terminator, and the write leaves the buffer when they do not fit.
\<close>

definition strcpy :: "buffer \<Rightarrow> string \<Rightarrow> pstate \<Rightarrow> pstate" where
  "strcpy dst src = stmt (\<lambda>s.
     if length src + 1 \<le> buf_size then buf_set dst src s
     else crash BufferOverflow s)"

definition strcat :: "buffer \<Rightarrow> string \<Rightarrow> pstate \<Rightarrow> pstate" where
  "strcat dst src = stmt (\<lambda>s.
     case buf_get dst s of
       None \<Rightarrow> crash IndeterminateValue s
     | Some d \<Rightarrow>
         if length d + length src + 1 \<le> buf_size then buf_set dst (d @ src) s
         else crash BufferOverflow s)"

text \<open>\<^verbatim>\<open>ls_args[i] = p\<close>; the array has 64 slots and the source only writes slots 0 to 2.\<close>

definition set_ls_args :: "nat \<Rightarrow> cptr \<Rightarrow> pstate \<Rightarrow> pstate" where
  "set_ls_args i p = stmt (\<lambda>s. s\<lparr>ls_args := (ls_args s)[i := p]\<rparr>)"

subsubsection \<open>Capabilities\<close>

definition cap_get_proc :: "pstate \<Rightarrow> pstate" where
  "cap_get_proc = stmt (emit CapGetProc)"

definition cap_set_flag :: "cap_value_t list \<Rightarrow> pstate \<Rightarrow> pstate" where
  "cap_set_flag caps = stmt (emit (CapSetFlag caps))"

definition cap_set_proc :: "pstate \<Rightarrow> pstate" where
  "cap_set_proc = stmt (emit CapSetProc)"

definition cap_free :: "pstate \<Rightarrow> pstate" where
  "cap_free = stmt (emit CapFree)"

text \<open>
  The loop of \<^verbatim>\<open>set_ambient_caps\<close>: one \<^verbatim>\<open>prctl\<close> per capability; at the first
  non-zero return value it prints \<^verbatim>\<open>Fail!\<close> and returns.
\<close>

fun raise_each :: "env \<Rightarrow> cap_value_t list \<Rightarrow> pstate \<Rightarrow> pstate" where
  "raise_each e [] s = s"
| "raise_each e (c # cs) s =
     (let s' = emit (PrctlAmbientRaise c) s in
      if prctl_ret e c \<noteq> 0 then printf e (''Fail!'' @ [CHR 0x0A]) s'
      else raise_each e cs s')"

text \<open>
  \<^verbatim>\<open>num_elem\<close> is the number of elements the loop visits; every call site passes the
  length of the array.
\<close>

definition set_ambient_caps :: "env \<Rightarrow> cap_value_t list \<Rightarrow> nat \<Rightarrow> pstate \<Rightarrow> pstate" where
  "set_ambient_caps e newcaps num_elem = stmt (raise_each e (take num_elem newcaps))"

subsubsection \<open>Descriptors and processes\<close>

text \<open>\<^verbatim>\<open>pipe(pipe_fds)\<close>: the return value is ignored by the source.\<close>

definition pipe :: "env \<Rightarrow> pstate \<Rightarrow> pstate" where
  "pipe e = stmt (\<lambda>s.
     let s' = emit Pipe s in
     case pipe_ret e of
       None \<Rightarrow> s'
     | Some (r, w) \<Rightarrow> s'\<lparr>pipe_fds := (r, w),
                         fdtab := (fdtab s')(r := Some PipeRead, w := Some PipeWrite)\<rparr>)"

text \<open>
  \<^verbatim>\<open>dup2(old, new)\<close> fails and changes nothing when \<open>old\<close> is not open, does nothing
  when both are the same descriptor, and otherwise makes \<open>new\<close> refer to what \<open>old\<close>
  refers to.
\<close>

definition dup2_table :: "int \<Rightarrow> int \<Rightarrow> (int \<Rightarrow> fdesc option) \<Rightarrow> int \<Rightarrow> fdesc option" where
  "dup2_table old new tab =
     (if tab old = None \<or> old = new then tab else tab(new := tab old))"

definition dup2 :: "int \<Rightarrow> int \<Rightarrow> pstate \<Rightarrow> pstate" where
  "dup2 old new = stmt (\<lambda>s.
     (emit (Dup2 old new) s)\<lparr>fdtab := dup2_table old new (fdtab s)\<rparr>)"

definition close :: "int \<Rightarrow> pstate \<Rightarrow> pstate" where
  "close fd = stmt (\<lambda>s. (emit (Close fd) s)\<lparr>fdtab := (fdtab s)(fd := None)\<rparr>)"

text \<open>\<^verbatim>\<open>if (fork()) parent else child\<close>, followed in the process \<open>fork_ret\<close> selects.\<close>

definition if_fork :: "env \<Rightarrow> (pstate \<Rightarrow> pstate) \<Rightarrow> (pstate \<Rightarrow> pstate) \<Rightarrow> pstate \<Rightarrow> pstate" where
  "if_fork e parent child = stmt (\<lambda>s.
     let s' = emit Fork s in
     if fork_ret e \<noteq> 0 then parent s' else child s')"

subsubsection \<open>Image replacement\<close>

definition deref :: "pstate \<Rightarrow> cptr \<Rightarrow> fault + string" where
  "deref s p = (case p of
       NULL \<Rightarrow> Inl NullDereference
     | Lit x \<Rightarrow> Inr x
     | Buf b \<Rightarrow> (case buf_get b s of None \<Rightarrow> Inl IndeterminateValue | Some x \<Rightarrow> Inr x)
     | Indeterminate \<Rightarrow> Inl IndeterminateValue)"

text \<open>
  The kernel reads an argument vector up to the first null pointer; a vector without one
  is read past its end.
\<close>

fun read_argv :: "pstate \<Rightarrow> cptr list \<Rightarrow> fault + string list" where
  "read_argv s [] = Inl UnterminatedVector"
| "read_argv s (NULL # ps) = Inr []"
| "read_argv s (p # ps) =
     (case deref s p of
        Inl f \<Rightarrow> Inl f
      | Inr x \<Rightarrow> (case read_argv s ps of Inl f \<Rightarrow> Inl f | Inr xs \<Rightarrow> Inr (x # xs)))"

text \<open>
  \<^verbatim>\<open>execv(path, argv)\<close> does not return when it succeeds: the image is replaced
  and what \<^verbatim>\<open>stdout\<close> had buffered is gone with it. When it fails it returns and the
  next statement runs.
\<close>

definition execv :: "env \<Rightarrow> cptr \<Rightarrow> cptr list \<Rightarrow> pstate \<Rightarrow> pstate" where
  "execv e path argv = stmt (\<lambda>s.
     case deref s path of
       Inl f \<Rightarrow> crash f s
     | Inr p \<Rightarrow>
        (case read_argv s argv of
           Inl f \<Rightarrow> crash f s
         | Inr as \<Rightarrow>
             (emit (Execv p as) s)
               \<lparr>status := (if execv_ok e p then Some (Replaced p as) else None),
                stdout_buf := (if execv_ok e p then [] else stdout_buf s)\<rparr>))"

subsection \<open>The capability elevator\<close>

text \<open>
  The same five statements stand in each \<open>main\<close> (lines 47 to 55 of
  \<^verbatim>\<open>elevated_docker_stats.c\<close>, 46 to 54 of \<^verbatim>\<open>elevated_netstat.c\<close>, 74 to 82 of
  \<^verbatim>\<open>elevated_proc_fd.c\<close>); only the array \<^verbatim>\<open>newcaps\<close> differs.
\<close>

definition elevate :: "env \<Rightarrow> cap_value_t list \<Rightarrow> pstate \<Rightarrow> pstate" where
  "elevate e newcaps = block
     [cap_get_proc,
      cap_set_flag newcaps,
      cap_set_proc,
      cap_free,
      set_ambient_caps e newcaps 2]"

subsection \<open>\<^verbatim>\<open>elevated_docker_stats.c\<close>\<close>

definition docker_newcaps :: "cap_value_t list" where
  "docker_newcaps = [CAP_DAC_READ_SEARCH, CAP_DAC_OVERRIDE]"

definition docker_param :: "cptr list" where
  "docker_param = [Lit ''docker'', Lit ''stats'', Lit ''--no-stream'', Lit ''--format'',
     Lit (''table {{.Container}}'' @ [CHR 0x09] @ ''{{.Name}}'' @ [CHR 0x09] @
          ''{{.CPUPerc}}'' @ [CHR 0x09] @ ''{{.MemUsage}}''), NULL]"

definition docker_stats_main :: "env \<Rightarrow> pstate" where
  "docker_stats_main e = block
     [elevate e docker_newcaps,
      execv e (Lit ''/usr/bin/docker'') docker_param,
      end_of_main] (init e)"

subsection \<open>\<^verbatim>\<open>elevated_netstat.c\<close>\<close>

definition netstat_newcaps :: "cap_value_t list" where
  "netstat_newcaps = [CAP_DAC_READ_SEARCH, CAP_SYS_PTRACE]"

definition netstat_param :: "cptr list" where
  "netstat_param = [Lit ''netstat'', Lit ''-tnap'', NULL]"

definition netstat_main :: "env \<Rightarrow> pstate" where
  "netstat_main e = block
     [elevate e netstat_newcaps,
      execv e (Lit ''/bin/netstat'') netstat_param,
      end_of_main] (init e)"

subsection \<open>\<^verbatim>\<open>elevated_proc_fd.c\<close>\<close>

definition usage :: string where
  "usage = ''You have to supply one argument; a process id for use in ls or -1 which would mean run lsof.''"

text \<open>Lines 48 to 69: the command is built from \<^verbatim>\<open>argv[1]\<close>.\<close>

definition proc_fd_build :: "string list \<Rightarrow> pstate \<Rightarrow> pstate" where
  "proc_fd_build args = block
     [strcpy LSBIN ''/bin/ls'',
      argv_string args 1 (\<lambda>a.
        if a \<noteq> ''-1'' then block
          [strcpy PROCFDPARAM ''/proc/'',
           argv_string args 1 (\<lambda>a'. strcat PROCFDPARAM a'),
           strcat PROCFDPARAM ''/fd'',
           set_ls_args 0 (Lit ''ls''),
           set_ls_args 1 (Buf PROCFDPARAM),
           set_ls_args 2 NULL]
        else block
          [strcpy LSBIN ''/usr/bin/lsof'',
           set_ls_args 0 (Buf LSBIN),
           set_ls_args 1 NULL])]"

definition proc_fd_newcaps :: "cap_value_t list" where
  "proc_fd_newcaps = [CAP_DAC_READ_SEARCH, CAP_SYS_PTRACE]"

definition wc_args :: "cptr list" where
  "wc_args = [Lit ''wc'', Lit ''-l'', NULL]"

text \<open>Lines 85 to 104: the pipe, the fork and the two branches.\<close>

definition proc_fd_pipeline :: "env \<Rightarrow> pstate \<Rightarrow> pstate" where
  "proc_fd_pipeline e = block
     [pipe e,
      if_fork e
        (block
          [\<lambda>s. dup2 (snd (pipe_fds s)) 1 s,
           \<lambda>s. close (snd (pipe_fds s)) s,
           \<lambda>s. close (fst (pipe_fds s)) s,
           \<lambda>s. execv e (Buf LSBIN) (ls_args s) s])
        (block
          [\<lambda>s. dup2 (fst (pipe_fds s)) 0 s,
           \<lambda>s. close (fst (pipe_fds s)) s,
           \<lambda>s. close (snd (pipe_fds s)) s,
           execv e (Lit ''/usr/bin/wc'') wc_args])]"

definition proc_fd_main :: "env \<Rightarrow> string list \<Rightarrow> pstate" where
  "proc_fd_main e args =
     (if argc args < 1 then
        block [printf e usage, return_main (- 1)] (init e)
      else
        block
         [proc_fd_build args,
          elevate e proc_fd_newcaps,
          proc_fd_pipeline e,
          end_of_main] (init e))"

subsection \<open>Derived notions used in the statements\<close>

text \<open>The calls the elevator makes, read off a run of it from the initial state.\<close>

definition elevate_events :: "env \<Rightarrow> cap_value_t list \<Rightarrow> event list" where
  "elevate_events e caps = trace (elevate e caps (init e))"

text \<open>The text handed to \<^verbatim>\<open>printf\<close> in the course of a trace.\<close>

fun printed :: "event \<Rightarrow> string" where
  "printed (Printf str) = str"
| "printed ev = []"

definition printed_text :: "event list \<Rightarrow> string" where
  "printed_text tr = concat (map printed tr)"

text \<open>The text the elevator hands to \<^verbatim>\<open>printf\<close>.\<close>

definition elevate_text :: "env \<Rightarrow> cap_value_t list \<Rightarrow> string" where
  "elevate_text e caps = printed_text (elevate_events e caps)"

text \<open>
  The stage of the control flow a call belongs to: 0 for the argument check and the
  building of the command (reads of \<^verbatim>\<open>argv\<close>, the usage message), 1 for the
  capability elevator (the libcap calls, the ambient raises and their failure message),
  2 for the pipe, the fork, the descriptor wiring and the image replacement.
\<close>

fun phase :: "event \<Rightarrow> nat" where
  "phase (ArgvRead i) = 0"
| "phase (Printf str) = (if str = usage then 0 else 1)"
| "phase CapGetProc = 1"
| "phase (CapSetFlag caps) = 1"
| "phase CapSetProc = 1"
| "phase CapFree = 1"
| "phase (PrctlAmbientRaise c) = 1"
| "phase Pipe = 2"
| "phase Fork = 2"
| "phase (Dup2 old new) = 2"
| "phase (Close fd) = 2"
| "phase (Execv p as) = 2"

text \<open>
  The ordering "the elevator runs before any argument is inspected": no call of the
  elevator comes after a read of \<^verbatim>\<open>argv\<close>.
\<close>

fun elevation_first :: "event list \<Rightarrow> bool" where
  "elevation_first [] = True"
| "elevation_first (ev # evs) =
     ((if phase ev = 0 then list_all (\<lambda>ev'. phase ev' \<noteq> 1) evs else True) \<and>
      elevation_first evs)"

text \<open>
  The text of a non-negative decimal integer, as the specification words it: digits
  only, at least one. (Whatever "small" bounds, it bounds a text of this form.)
\<close>

definition decimal_text :: "string \<Rightarrow> bool" where
  "decimal_text a = (a \<noteq> [] \<and> list_all (\<lambda>c. c \<in> set ''0123456789'') a)"

text \<open>The part of a path after its last slash.\<close>

definition last_component :: "string \<Rightarrow> string" where
  "last_component p = rev (takeWhile (\<lambda>c. c \<noteq> CHR ''/'') (rev p))"

text \<open>
  Two readings of "element 0 of the vector handed to \<^verbatim>\<open>execv\<close> is the target":
  element 0 is the path itself, or element 0 names the same file as the path does.
\<close>

fun argv0_is_path :: "event \<Rightarrow> bool" where
  "argv0_is_path (Execv p as) = (as \<noteq> [] \<and> hd as = p)"
| "argv0_is_path ev = True"

fun argv0_names_target :: "event \<Rightarrow> bool" where
  "argv0_names_target (Execv p as) =
     (as \<noteq> [] \<and> length as < 64 \<and> last_component (hd as) = last_component p)"
| "argv0_names_target ev = True"

text \<open>
  The state in which the pipeline of \<^verbatim>\<open>elevated_proc_fd.c\<close> leaves the process,
  written out: \<open>t\<close> is the trace before the pipe, \<open>lb\<close>, \<open>pp\<close> and \<open>xs\<close> the
  variables of the builder, \<open>p\<close> and \<open>as\<close> the listing command they denote; the
  elevator has run before, on a process that had printed nothing. It is
  only a name for the result: \<open>pipeline_lsof\<close> and \<open>pipeline_ls\<close> below prove that
  \<open>proc_fd_pipeline\<close> computes it.
\<close>

definition launched :: "env \<Rightarrow> event list \<Rightarrow> string option \<Rightarrow> string option \<Rightarrow> cptr list \<Rightarrow>
    string \<Rightarrow> string list \<Rightarrow> pstate" where
  "launched e t lb pp xs p as =
     (let rw = (case pipe_ret e of None \<Rightarrow> stack_pipe_fds e | Some x \<Rightarrow> x);
          r = fst rw; w = snd rw;
          tab = (case pipe_ret e of None \<Rightarrow> fds0 e
                 | Some x \<Rightarrow> (fds0 e)(r := Some PipeRead, w := Some PipeWrite))
      in \<lparr>trace = t @ [Pipe, Fork] @
           (if fork_ret e \<noteq> 0 then [Dup2 w 1, Close w, Close r, Execv p as]
            else [Dup2 r 0, Close r, Close w, Execv ''/usr/bin/wc'' [''wc'', ''-l'']]),
          status = Some
           (if fork_ret e \<noteq> 0 then (if execv_ok e p then Replaced p as else Exited 0)
            else (if execv_ok e ''/usr/bin/wc'' then Replaced ''/usr/bin/wc'' [''wc'', ''-l'']
                  else Exited 0)),
          fdtab =
           (if fork_ret e \<noteq> 0 then (dup2_table w 1 tab)(w := None, r := None)
            else (dup2_table r 0 tab)(r := None, w := None)),
          lsbin = lb, procFDParam = pp, ls_args = xs, pipe_fds = rw,
          stdout_buf = [],
          stdout_written =
           (if stdout_tty e \<or>
               \<not> execv_ok e (if fork_ret e \<noteq> 0 then p else ''/usr/bin/wc'')
            then elevate_text e proc_fd_newcaps else [])\<rparr>)"

subsection \<open>Concrete environments\<close>

text \<open>
  A process started with the three standard descriptors open, in which every call
  succeeds, \<^verbatim>\<open>fork\<close> returns in the parent and standard output is not a terminal
  (the monitoring service reads it through a pipe); the same in the child; with an
  \<^verbatim>\<open>execv\<close> that fails, in the parent and in the child; with a kernel that
  rejects every ambient raise, the \<^verbatim>\<open>execv\<close> succeeding or failing.
\<close>

definition std_fds :: "int \<Rightarrow> fdesc option" where
  "std_fds n = (if n = 0 \<or> n = 1 \<or> n = 2 then Some (Inherited n) else None)"

definition all_raised :: "cap_value_t \<Rightarrow> int" where
  "all_raised c = 0"

definition none_raised :: "cap_value_t \<Rightarrow> int" where
  "none_raised c = - 1"

definition all_executable :: "string \<Rightarrow> bool" where
  "all_executable p = True"

definition none_executable :: "string \<Rightarrow> bool" where
  "none_executable p = False"

definition env_std :: env where
  "env_std = \<lparr>prctl_ret = all_raised, pipe_ret = Some (3, 4), fork_ret = 1234,
     execv_ok = all_executable, fds0 = std_fds, stack_pipe_fds = (0, 0),
     stdout_tty = False\<rparr>"

definition env_child :: env where
  "env_child = env_std\<lparr>fork_ret := 0\<rparr>"

definition env_noexec :: env where
  "env_noexec = env_std\<lparr>execv_ok := none_executable\<rparr>"

definition env_noraise :: env where
  "env_noraise = env_std\<lparr>prctl_ret := none_raised\<rparr>"

definition env_child_noexec :: env where
  "env_child_noexec = env_std\<lparr>fork_ret := 0, execv_ok := none_executable\<rparr>"

definition env_noraise_noexec :: env where
  "env_noraise_noexec = env_std\<lparr>prctl_ret := none_raised, execv_ok := none_executable\<rparr>"

text \<open>
  A process started with descriptor 0 closed, followed in the child: \<^verbatim>\<open>pipe\<close>
  returns the lowest unused descriptors, so the read end is descriptor 0.
\<close>

definition no_stdin_fds :: "int \<Rightarrow> fdesc option" where
  "no_stdin_fds n = (if n = 1 \<or> n = 2 then Some (Inherited n) else None)"

definition env_stdin_closed :: env where
  "env_stdin_closed = env_std\<lparr>pipe_ret := Some (0, 3), fork_ret := 0, fds0 := no_stdin_fds\<rparr>"

section \<open>Running the programs\<close>

lemmas stmt_defs = stmt_def emit_def crash_def printf_def return_main_def end_of_main_def
  argc_def argv_string_def buf_get_def buf_set_def buf_size_def strcpy_def strcat_def
  set_ls_args_def cap_get_proc_def cap_set_flag_def cap_set_proc_def cap_free_def
  set_ambient_caps_def pipe_def dup2_def close_def if_fork_def deref_def execv_def

lemmas prog_defs = elevate_def docker_newcaps_def docker_param_def netstat_newcaps_def
  netstat_param_def proc_fd_newcaps_def wc_args_def proc_fd_build_def proc_fd_pipeline_def
  init_def

lemmas env_defs = env_std_def env_child_def env_noexec_def env_noraise_def
  env_child_noexec_def env_noraise_noexec_def env_stdin_closed_def std_fds_def
  no_stdin_fds_def
  all_raised_def none_raised_def all_executable_def none_executable_def

lemma slots64: "replicate 64 x = x # x # x # replicate 61 x"
  by (simp add: eval_nat_numeral)

lemma upd2: "(x # y # z # zs)[2 := v] = x # y # v # zs"
  by (simp add: eval_nat_numeral)

subsection \<open>The builder\<close>

lemma build_sentinel:
  "proc_fd_build (prog # ''-1'' # rest) (init e) =
     \<lparr>trace = [ArgvRead 1], status = None, fdtab = fds0 e, lsbin = Some ''/usr/bin/lsof'',
      procFDParam = None,
      ls_args = Buf LSBIN # NULL # Indeterminate # replicate 61 Indeterminate,
      pipe_fds = stack_pipe_fds e, stdout_buf = [], stdout_written = []\<rparr>"
  by (simp add: stmt_defs prog_defs slots64)

lemma build_pid:
  "a \<noteq> ''-1'' \<Longrightarrow> length a \<le> 22 \<Longrightarrow>
   proc_fd_build (prog # a # rest) (init e) =
     \<lparr>trace = [ArgvRead 1, ArgvRead 1], status = None, fdtab = fds0 e, lsbin = Some ''/bin/ls'',
      procFDParam = Some (''/proc/'' @ a @ ''/fd''),
      ls_args = Lit ''ls'' # Buf PROCFDPARAM # NULL # replicate 61 Indeterminate,
      pipe_fds = stack_pipe_fds e, stdout_buf = [], stdout_written = []\<rparr>"
  by (simp add: stmt_defs prog_defs slots64 upd2)

lemma build_overflow:
  "a \<noteq> ''-1'' \<Longrightarrow> 22 < length a \<Longrightarrow>
   proc_fd_build (prog # a # rest) (init e) =
     \<lparr>trace = [ArgvRead 1, ArgvRead 1], status = Some (Crashed BufferOverflow),
      fdtab = fds0 e, lsbin = Some ''/bin/ls'',
      procFDParam = Some (if length a \<le> 25 then ''/proc/'' @ a else ''/proc/''),
      ls_args = replicate 64 Indeterminate, pipe_fds = stack_pipe_fds e, stdout_buf = [], stdout_written = []\<rparr>"
  by (cases "length a \<le> 25") (simp_all add: stmt_defs prog_defs Let_def)

lemma build_no_arg:
  "proc_fd_build [prog] (init e) =
     \<lparr>trace = [ArgvRead 1], status = Some (Crashed NullDereference), fdtab = fds0 e,
      lsbin = Some ''/bin/ls'', procFDParam = None, ls_args = replicate 64 Indeterminate,
      pipe_fds = stack_pipe_fds e, stdout_buf = [], stdout_written = []\<rparr>"
  by (simp add: stmt_defs prog_defs Let_def)

subsection \<open>The elevator\<close>

lemma newline_split:
  "through_last_newline (''Fail!'' @ [CHR 0x0A]) = ''Fail!'' @ [CHR 0x0A]"
  "after_last_newline (''Fail!'' @ [CHR 0x0A]) = []"
  "through_last_newline usage = []"
  "after_last_newline usage = usage"
  by (simp_all add: through_last_newline_def after_last_newline_def usage_def)

lemma elevate2:
  "elevate e [c1, c2]
     \<lparr>trace = t, status = None, fdtab = f, lsbin = lb, procFDParam = pp, ls_args = xs,
      pipe_fds = pf, stdout_buf = [], stdout_written = w\<rparr> =
     \<lparr>trace = t @
        [CapGetProc, CapSetFlag [c1, c2], CapSetProc, CapFree, PrctlAmbientRaise c1] @
        (if prctl_ret e c1 \<noteq> 0 then [Printf (''Fail!'' @ [CHR 0x0A])]
         else PrctlAmbientRaise c2 #
              (if prctl_ret e c2 \<noteq> 0 then [Printf (''Fail!'' @ [CHR 0x0A])] else [])),
      status = None, fdtab = f, lsbin = lb, procFDParam = pp, ls_args = xs, pipe_fds = pf,
      stdout_buf =
        (if stdout_tty e then []
         else if prctl_ret e c1 \<noteq> 0 \<or> prctl_ret e c2 \<noteq> 0 then ''Fail!'' @ [CHR 0x0A]
         else []),
      stdout_written = w @
        (if stdout_tty e
         then (if prctl_ret e c1 \<noteq> 0 \<or> prctl_ret e c2 \<noteq> 0 then ''Fail!'' @ [CHR 0x0A]
               else [])
         else [])\<rparr>"
  by (simp add: elevate_def cap_get_proc_def cap_set_flag_def cap_set_proc_def cap_free_def
      set_ambient_caps_def stmt_def emit_def printf_def Let_def
      newline_split [simplified])

lemma elevate_events2:
  "elevate_events e [c1, c2] =
      [CapGetProc, CapSetFlag [c1, c2], CapSetProc, CapFree, PrctlAmbientRaise c1] @
      (if prctl_ret e c1 \<noteq> 0 then [Printf (''Fail!'' @ [CHR 0x0A])]
       else PrctlAmbientRaise c2 #
            (if prctl_ret e c2 \<noteq> 0 then [Printf (''Fail!'' @ [CHR 0x0A])] else []))"
  unfolding elevate_events_def init_def by (subst elevate2) simp

lemma elevate_text2:
  "elevate_text e [c1, c2] =
     (if prctl_ret e c1 \<noteq> 0 \<or> prctl_ret e c2 \<noteq> 0 then ''Fail!'' @ [CHR 0x0A] else [])"
  by (simp add: elevate_text_def printed_text_def elevate_events2)

lemma elevate_append:
  "elevate e [c1, c2]
     \<lparr>trace = t, status = None, fdtab = f, lsbin = lb, procFDParam = pp, ls_args = xs,
      pipe_fds = pf, stdout_buf = [], stdout_written = w\<rparr> =
     \<lparr>trace = t @ elevate_events e [c1, c2],
      status = None, fdtab = f, lsbin = lb, procFDParam = pp, ls_args = xs, pipe_fds = pf,
      stdout_buf = (if stdout_tty e then [] else elevate_text e [c1, c2]),
      stdout_written = w @ (if stdout_tty e then elevate_text e [c1, c2] else [])\<rparr>"
  by (simp only: elevate2 elevate_events2 elevate_text2)

lemma elevate_skip: "status s = Some x \<Longrightarrow> elevate e caps s = s"
  by (simp add: stmt_defs prog_defs)

subsection \<open>The pipeline\<close>

lemma pipeline_skip: "status s = Some x \<Longrightarrow> proc_fd_pipeline e s = s"
  by (simp add: stmt_defs prog_defs)

text \<open>What each statement of the pipeline does to a running process.\<close>

lemma run_pipe_some:
  "status s = None \<Longrightarrow> pipe_ret e = Some (r, w) \<Longrightarrow>
   pipe e s = s\<lparr>trace := trace s @ [Pipe], pipe_fds := (r, w),
                   fdtab := (fdtab s)(r := Some PipeRead, w := Some PipeWrite)\<rparr>"
  by (simp add: pipe_def stmt_def emit_def)

lemma run_pipe_none:
  "status s = None \<Longrightarrow> pipe_ret e = None \<Longrightarrow> pipe e s = s\<lparr>trace := trace s @ [Pipe]\<rparr>"
  by (simp add: pipe_def stmt_def emit_def)

lemma run_fork_parent:
  "status s = None \<Longrightarrow> fork_ret e \<noteq> 0 \<Longrightarrow>
   if_fork e parent child s = parent (s\<lparr>trace := trace s @ [Fork]\<rparr>)"
  by (simp add: if_fork_def stmt_def emit_def)

lemma run_fork_child:
  "status s = None \<Longrightarrow> fork_ret e = 0 \<Longrightarrow>
   if_fork e parent child s = child (s\<lparr>trace := trace s @ [Fork]\<rparr>)"
  by (simp add: if_fork_def stmt_def emit_def)

lemma run_dup2:
  "status s = None \<Longrightarrow>
   dup2 old new s = s\<lparr>trace := trace s @ [Dup2 old new],
                         fdtab := dup2_table old new (fdtab s)\<rparr>"
  by (simp add: dup2_def stmt_def emit_def)

lemma run_close:
  "status s = None \<Longrightarrow>
   close fd s = s\<lparr>trace := trace s @ [Close fd], fdtab := (fdtab s)(fd := None)\<rparr>"
  by (simp add: close_def stmt_def emit_def)

lemma run_execv:
  "status s = None \<Longrightarrow> deref s path = Inr p \<Longrightarrow> read_argv s argv = Inr as \<Longrightarrow>
   execv e path argv s =
     s\<lparr>trace := trace s @ [Execv p as],
       status := (if execv_ok e p then Some (Replaced p as) else None),
       stdout_buf := (if execv_ok e p then [] else stdout_buf s)\<rparr>"
  by (simp add: execv_def stmt_def emit_def)

lemma run_end_of_main:
  "end_of_main s =
     s\<lparr>status := (case status s of None \<Rightarrow> Some (Exited 0) | Some x \<Rightarrow> Some x),
       stdout_buf := (case status s of None \<Rightarrow> [] | Some x \<Rightarrow> stdout_buf s),
       stdout_written :=
         stdout_written s @ (case status s of None \<Rightarrow> stdout_buf s | Some x \<Rightarrow> [])\<rparr>"
  by (cases s; cases "status s") (simp_all add: end_of_main_def return_main_def stmt_def)

lemmas run_simps = run_pipe_some run_pipe_none run_fork_parent run_fork_child run_dup2
  run_close run_execv run_end_of_main

lemma pipeline_lsof:
  "block [proc_fd_pipeline e, end_of_main]
      \<lparr>trace = t, status = None, fdtab = fds0 e, lsbin = Some p, procFDParam = pp,
       ls_args = Buf LSBIN # NULL # xs, pipe_fds = stack_pipe_fds e,
        stdout_buf = (if stdout_tty e then [] else elevate_text e proc_fd_newcaps),
        stdout_written = (if stdout_tty e then elevate_text e proc_fd_newcaps else [])\<rparr> =
    launched e t (Some p) pp (Buf LSBIN # NULL # xs) p [p]"
  by (cases "pipe_ret e"; cases "fork_ret e = 0")
     (auto simp add: run_simps proc_fd_pipeline_def wc_args_def launched_def Let_def
        deref_def buf_get_def)

lemma pipeline_ls:
  "block [proc_fd_pipeline e, end_of_main]
      \<lparr>trace = t, status = None, fdtab = fds0 e, lsbin = Some p, procFDParam = Some q,
       ls_args = Lit l # Buf PROCFDPARAM # NULL # xs, pipe_fds = stack_pipe_fds e,
        stdout_buf = (if stdout_tty e then [] else elevate_text e proc_fd_newcaps),
        stdout_written = (if stdout_tty e then elevate_text e proc_fd_newcaps else [])\<rparr> =
    launched e t (Some p) (Some q) (Lit l # Buf PROCFDPARAM # NULL # xs) p [l, q]"
  by (cases "pipe_ret e"; cases "fork_ret e = 0")
     (auto simp add: run_simps proc_fd_pipeline_def wc_args_def launched_def Let_def
        deref_def buf_get_def)

subsection \<open>The three programs, run to their end\<close>

lemma main_pid:
  assumes "a \<noteq> ''-1''" "length a \<le> 22"
  shows "proc_fd_main e (prog # a # rest) =
     launched e ([ArgvRead 1, ArgvRead 1] @ elevate_events e proc_fd_newcaps)
       (Some ''/bin/ls'') (Some (''/proc/'' @ a @ ''/fd''))
       (Lit ''ls'' # Buf PROCFDPARAM # NULL # replicate 61 Indeterminate)
       ''/bin/ls'' [''ls'', ''/proc/'' @ a @ ''/fd'']"
proof -
  have "proc_fd_main e (prog # a # rest) =
     block [proc_fd_pipeline e, end_of_main]
       \<lparr>trace = [ArgvRead 1, ArgvRead 1] @ elevate_events e proc_fd_newcaps,
        status = None, fdtab = fds0 e, lsbin = Some ''/bin/ls'',
        procFDParam = Some (''/proc/'' @ a @ ''/fd''),
        ls_args = Lit ''ls'' # Buf PROCFDPARAM # NULL # replicate 61 Indeterminate,
        pipe_fds = stack_pipe_fds e,
        stdout_buf = (if stdout_tty e then [] else elevate_text e proc_fd_newcaps),
        stdout_written = (if stdout_tty e then elevate_text e proc_fd_newcaps else [])\<rparr>"
    using assms
    by (simp add: proc_fd_main_def argc_def build_pid proc_fd_newcaps_def elevate_append)
  then show ?thesis by (simp only: pipeline_ls)
qed

lemma main_sentinel:
  "proc_fd_main e (prog # ''-1'' # rest) =
     launched e ([ArgvRead 1] @ elevate_events e proc_fd_newcaps)
       (Some ''/usr/bin/lsof'') None
       (Buf LSBIN # NULL # Indeterminate # replicate 61 Indeterminate)
       ''/usr/bin/lsof'' [''/usr/bin/lsof'']"
proof -
  have "proc_fd_main e (prog # ''-1'' # rest) =
     block [proc_fd_pipeline e, end_of_main]
       \<lparr>trace = [ArgvRead 1] @ elevate_events e proc_fd_newcaps,
        status = None, fdtab = fds0 e, lsbin = Some ''/usr/bin/lsof'',
        procFDParam = None,
        ls_args = Buf LSBIN # NULL # Indeterminate # replicate 61 Indeterminate,
        pipe_fds = stack_pipe_fds e,
        stdout_buf = (if stdout_tty e then [] else elevate_text e proc_fd_newcaps),
        stdout_written = (if stdout_tty e then elevate_text e proc_fd_newcaps else [])\<rparr>"
    by (simp add: proc_fd_main_def argc_def build_sentinel proc_fd_newcaps_def elevate_append)
  then show ?thesis by (simp only: pipeline_lsof)
qed

lemma main_overflow:
  assumes "a \<noteq> ''-1''" "22 < length a"
  shows "proc_fd_main e (prog # a # rest) =
     \<lparr>trace = [ArgvRead 1, ArgvRead 1], status = Some (Crashed BufferOverflow),
      fdtab = fds0 e, lsbin = Some ''/bin/ls'',
      procFDParam = Some (if length a \<le> 25 then ''/proc/'' @ a else ''/proc/''),
      ls_args = replicate 64 Indeterminate, pipe_fds = stack_pipe_fds e, stdout_buf = [], stdout_written = []\<rparr>"
  using assms
  by (simp add: proc_fd_main_def argc_def build_overflow elevate_skip pipeline_skip
      end_of_main_def return_main_def stmt_def)

lemma main_no_arg:
  "proc_fd_main e [prog] =
     \<lparr>trace = [ArgvRead 1], status = Some (Crashed NullDereference), fdtab = fds0 e,
      lsbin = Some ''/bin/ls'', procFDParam = None, ls_args = replicate 64 Indeterminate,
      pipe_fds = stack_pipe_fds e, stdout_buf = [], stdout_written = []\<rparr>"
  by (simp add: proc_fd_main_def argc_def build_no_arg elevate_skip pipeline_skip
      end_of_main_def return_main_def stmt_def)

lemma main_argc0:
  "proc_fd_main e [] =
     (init e)\<lparr>trace := [Printf usage], status := Some (Exited (- 1)),
       stdout_written := usage\<rparr>"
  by (simp add: proc_fd_main_def argc_def printf_def return_main_def stmt_def emit_def init_def
      newline_split)

lemma netstat_final:
  "netstat_main e = (init e)\<lparr>trace := elevate_events e netstat_newcaps @
        [Execv ''/bin/netstat'' [''netstat'', ''-tnap'']],
      status := Some (if execv_ok e ''/bin/netstat''
                      then Replaced ''/bin/netstat'' [''netstat'', ''-tnap''] else Exited 0),
      stdout_written :=
        (if stdout_tty e \<or> \<not> execv_ok e ''/bin/netstat''
         then elevate_text e netstat_newcaps else [])\<rparr>"
  by (simp add: netstat_main_def netstat_newcaps_def elevate_append init_def netstat_param_def
       execv_def stmt_def deref_def emit_def end_of_main_def return_main_def)

lemma docker_final:
  "docker_stats_main e = (init e)\<lparr>trace := elevate_events e docker_newcaps @
        [Execv ''/usr/bin/docker'' [''docker'', ''stats'', ''--no-stream'', ''--format'',
           ''table {{.Container}}'' @ [CHR 0x09] @ ''{{.Name}}'' @ [CHR 0x09] @
           ''{{.CPUPerc}}'' @ [CHR 0x09] @ ''{{.MemUsage}}'']],
      status := Some (if execv_ok e ''/usr/bin/docker''
                      then Replaced ''/usr/bin/docker'' [''docker'', ''stats'', ''--no-stream'',
                        ''--format'',
                        ''table {{.Container}}'' @ [CHR 0x09] @ ''{{.Name}}'' @ [CHR 0x09] @
                        ''{{.CPUPerc}}'' @ [CHR 0x09] @ ''{{.MemUsage}}'']
                      else Exited 0),
      stdout_written :=
        (if stdout_tty e \<or> \<not> execv_ok e ''/usr/bin/docker''
         then elevate_text e docker_newcaps else [])\<rparr>"
  by (simp add: docker_stats_main_def docker_newcaps_def elevate_append init_def docker_param_def
       execv_def stmt_def deref_def emit_def end_of_main_def return_main_def)

subsection \<open>The concrete environments\<close>

lemma env_std_fields:
  "prctl_ret env_std c = 0" "pipe_ret env_std = Some (3, 4)" "fork_ret env_std = 1234"
  "execv_ok env_std p" "fds0 env_std = std_fds" "stack_pipe_fds env_std = (0, 0)"
  "\<not> stdout_tty env_std"
  by (simp_all add: env_defs)

lemma env_child_fields:
  "prctl_ret env_child c = 0" "pipe_ret env_child = Some (3, 4)" "fork_ret env_child = 0"
  "execv_ok env_child p" "fds0 env_child = std_fds" "stack_pipe_fds env_child = (0, 0)"
  "\<not> stdout_tty env_child"
  by (simp_all add: env_defs)



lemma env_noraise_fields:
  "prctl_ret env_noraise c = - 1" "pipe_ret env_noraise = Some (3, 4)"
  "fork_ret env_noraise = 1234" "execv_ok env_noraise p" "fds0 env_noraise = std_fds"
  "stack_pipe_fds env_noraise = (0, 0)" "\<not> stdout_tty env_noraise"
  by (simp_all add: env_defs)


lemma env_stdin_closed_fields:
  "prctl_ret env_stdin_closed c = 0" "pipe_ret env_stdin_closed = Some (0, 3)"
  "fork_ret env_stdin_closed = 0" "execv_ok env_stdin_closed p"
  "fds0 env_stdin_closed = no_stdin_fds" "stack_pipe_fds env_stdin_closed = (0, 0)"
  "\<not> stdout_tty env_stdin_closed"
  by (simp_all add: env_defs)

subsection \<open>The raise loop\<close>

lemma raise_each_status: "status (raise_each e cs s) = status s"
  by (induction cs arbitrary: s) (simp_all add: Let_def emit_def printf_def stmt_def)

subsection \<open>The stages of a trace\<close>

lemma args_cases:
  obtains "args = []" | prog where "args = [prog]"
  | prog a rest where "args = prog # a # rest"
  by (cases args; cases "tl args") auto

lemma phase_elevate_events:
  "map phase (elevate_events e [c1, c2]) = replicate (length (elevate_events e [c1, c2])) 1"
  by (simp add: elevate_events2 usage_def)

lemma filter_elevate_events:
  "filter (\<lambda>ev. phase ev = Suc 0) (elevate_events e [c1, c2]) = elevate_events e [c1, c2]"
  "filter (\<lambda>ev. phase ev = 0) (elevate_events e [c1, c2]) = []"
  "list_ex (\<lambda>ev. phase ev = 2) (elevate_events e [c1, c2]) = False"
  by (simp_all add: elevate_events2 usage_def)

lemma stages_launched:
  assumes "t0 = [ArgvRead 1] \<or> t0 = [ArgvRead 1, ArgvRead 1]"
  shows "sorted (map phase (trace (launched e (t0 @ elevate_events e [c1, c2]) lb pp xs p as)))"
    and "filter (\<lambda>ev. phase ev = 1)
           (trace (launched e (t0 @ elevate_events e [c1, c2]) lb pp xs p as)) =
         elevate_events e [c1, c2]"
  using assms
  by (auto simp add: launched_def Let_def sorted_append phase_elevate_events
        filter_elevate_events)

lemma stages_proc_fd:
  "sorted (map phase (trace (proc_fd_main e args))) \<and>
   (list_ex (\<lambda>ev. phase ev = 2) (trace (proc_fd_main e args)) \<longrightarrow>
      filter (\<lambda>ev. phase ev = 1) (trace (proc_fd_main e args)) = elevate_events e proc_fd_newcaps)"
proof (cases args rule: args_cases)
  case 1
  then show ?thesis by (simp add: main_argc0)
next
  case (2 prog)
  then show ?thesis by (simp add: main_no_arg)
next
  case (3 prog a rest)
  show ?thesis
  proof (cases "a = ''-1''")
    case True
    have "proc_fd_main e args =
      launched e ([ArgvRead 1] @ elevate_events e [CAP_DAC_READ_SEARCH, CAP_SYS_PTRACE])
       (Some ''/usr/bin/lsof'') None
       (Buf LSBIN # NULL # Indeterminate # replicate 61 Indeterminate)
       ''/usr/bin/lsof'' [''/usr/bin/lsof'']"
      using 3 True by (simp add: main_sentinel proc_fd_newcaps_def)
    then show ?thesis
      by (simp only: stages_launched proc_fd_newcaps_def simp_thms)
  next
    case False
    show ?thesis
    proof (cases "length a \<le> 22")
      case True
      have "proc_fd_main e args =
        launched e ([ArgvRead 1, ArgvRead 1] @ elevate_events e [CAP_DAC_READ_SEARCH, CAP_SYS_PTRACE])
         (Some ''/bin/ls'') (Some (''/proc/'' @ a @ ''/fd''))
         (Lit ''ls'' # Buf PROCFDPARAM # NULL # replicate 61 Indeterminate)
         ''/bin/ls'' [''ls'', ''/proc/'' @ a @ ''/fd'']"
        using 3 False True by (simp add: main_pid proc_fd_newcaps_def)
      then show ?thesis
        by (simp only: stages_launched proc_fd_newcaps_def simp_thms)
    next
      case long: False
      then show ?thesis
        using 3 False by (simp add: main_overflow)
    qed
  qed
qed

subsection \<open>The argument vectors\<close>

lemma names_elevate_events: "list_all argv0_names_target (elevate_events e [c1, c2])"
  by (simp add: elevate_events2)

lemma names_launched:
  assumes "t0 = [ArgvRead 1] \<or> t0 = [ArgvRead 1, ArgvRead 1]"
    and "as \<noteq> []" and "length as < 64"
    and "last_component (hd as) = last_component p"
  shows "list_all argv0_names_target (trace (launched e (t0 @ elevate_events e [c1, c2]) lb pp xs p as))"
  using assms
  by (auto simp add: launched_def Let_def names_elevate_events last_component_def)

lemma names_proc_fd: "list_all argv0_names_target (trace (proc_fd_main e args))"
proof (cases args rule: args_cases)
  case 1
  then show ?thesis by (simp add: main_argc0)
next
  case (2 prog)
  then show ?thesis by (simp add: main_no_arg)
next
  case (3 prog a rest)
  show ?thesis
  proof (cases "a = ''-1''")
    case True
    have "proc_fd_main e args =
      launched e ([ArgvRead 1] @ elevate_events e [CAP_DAC_READ_SEARCH, CAP_SYS_PTRACE])
       (Some ''/usr/bin/lsof'') None
       (Buf LSBIN # NULL # Indeterminate # replicate 61 Indeterminate)
       ''/usr/bin/lsof'' [''/usr/bin/lsof'']"
      using 3 True by (simp add: main_sentinel proc_fd_newcaps_def)
    then show ?thesis
      by (simp only: names_launched) (rule names_launched, simp_all)
  next
    case False
    show ?thesis
    proof (cases "length a \<le> 22")
      case True
      have "proc_fd_main e args =
        launched e ([ArgvRead 1, ArgvRead 1] @ elevate_events e [CAP_DAC_READ_SEARCH, CAP_SYS_PTRACE])
         (Some ''/bin/ls'') (Some (''/proc/'' @ a @ ''/fd''))
         (Lit ''ls'' # Buf PROCFDPARAM # NULL # replicate 61 Indeterminate)
         ''/bin/ls'' [''ls'', ''/proc/'' @ a @ ''/fd'']"
        using 3 False True by (simp add: main_pid proc_fd_newcaps_def)
      then show ?thesis
        by (simp only: names_launched) (rule names_launched, simp_all add: last_component_def)
    next
      case long: False
      then show ?thesis
        using 3 False by (simp add: main_overflow)
    qed
  qed
qed

lemma build_kept:
  "lsbin (proc_fd_main e (prog # rest0)) = lsbin (proc_fd_build (prog # rest0) (init e)) \<and>
   procFDParam (proc_fd_main e (prog # rest0)) = procFDParam (proc_fd_build (prog # rest0) (init e)) \<and>
   ls_args (proc_fd_main e (prog # rest0)) = ls_args (proc_fd_build (prog # rest0) (init e)) \<and>
   status (proc_fd_main e (prog # rest0)) \<noteq> Some (Crashed UnterminatedVector) \<and>
   (status (proc_fd_build (prog # rest0) (init e)) = None \<longrightarrow>
      (case read_argv (proc_fd_main e (prog # rest0)) (ls_args (proc_fd_main e (prog # rest0))) of
         Inl f \<Rightarrow> False
       | Inr as \<Rightarrow> length as < 64 \<and> ls_args (proc_fd_main e (prog # rest0)) ! length as = NULL))"
proof (cases rest0)
  case Nil
  then show ?thesis by (simp add: main_no_arg build_no_arg)
next
  case (Cons a rest)
  show ?thesis
  proof (cases "a = ''-1''")
    case True
    then show ?thesis
      using Cons by (simp add: main_sentinel build_sentinel launched_def Let_def deref_def buf_get_def)
  next
    case False
    show ?thesis
    proof (cases "length a \<le> 22")
      case True
      then show ?thesis
        using Cons False
        by (simp add: main_pid build_pid launched_def Let_def deref_def buf_get_def)
    next
      case long: False
      then show ?thesis
        using Cons False by (simp add: main_overflow build_overflow)
    qed
  qed
qed

section \<open>The claims\<close>

subsection \<open>The argument check of \<^verbatim>\<open>elevated_proc_fd\<close>\<close>

text \<open>
  C1. Claimed: run without a positional argument, the fd-count proxy prints its usage
  message and stops before anything else happens. The guard of the source tests
  \<^verbatim>\<open>argc < 1\<close>, and \<^verbatim>\<open>argc\<close> counts the program name: with the program name
  alone \<^verbatim>\<open>argc\<close> is 1, the guard is passed, and \<^verbatim>\<open>strcmp\<close> is handed
  \<^verbatim>\<open>argv[1]\<close>, the null pointer that ends the argument list. No usage message is
  printed; the behaviour is undefined.
\<close>

theorem proc_fd_missing_argument_unguarded:
  "argc [prog] = 1 \<and>
   status (proc_fd_main e [prog]) = Some (Crashed NullDereference) \<and>
   trace (proc_fd_main e [prog]) = [ArgvRead 1]"
  by (simp add: main_no_arg argc_def)

text \<open>
  The guard only fires for an empty argument list, which a caller can pass to
  \<^verbatim>\<open>execve\<close> but no shell does.
\<close>

lemma proc_fd_empty_argv:
  "status (proc_fd_main e []) = Some (Exited (- 1)) \<and> trace (proc_fd_main e []) = [Printf usage]"
  by (simp add: main_argc0)

subsection \<open>The command built by \<^verbatim>\<open>elevated_proc_fd\<close>\<close>

text \<open>
  C2. When the first argument is exactly \<^verbatim>\<open>-1\<close>, the command built is
  \<^verbatim>\<open>/usr/bin/lsof\<close> with no argument (the vector holds the path alone), whatever the
  kernel answers and whatever follows on the command line. The per-process branch is
  not taken: \<^verbatim>\<open>procFDParam\<close> is never written and \<^verbatim>\<open>argv[1]\<close> is read once, by the
  comparison. The process that \<^verbatim>\<open>fork\<close> leaves in the parent calls \<^verbatim>\<open>execv\<close> on
  that command as its last action.
\<close>

theorem proc_fd_sentinel_selects_lsof:
  "lsbin (proc_fd_main e (prog # ''-1'' # rest)) = Some ''/usr/bin/lsof'' \<and>
   read_argv (proc_fd_main e (prog # ''-1'' # rest))
     (ls_args (proc_fd_main e (prog # ''-1'' # rest))) = Inr [''/usr/bin/lsof''] \<and>
   procFDParam (proc_fd_main e (prog # ''-1'' # rest)) = None \<and>
   filter (\<lambda>ev. phase ev = 0) (trace (proc_fd_main e (prog # ''-1'' # rest))) = [ArgvRead 1] \<and>
   last (trace (proc_fd_main e (prog # ''-1'' # rest))) =
     (if fork_ret e \<noteq> 0 then Execv ''/usr/bin/lsof'' [''/usr/bin/lsof'']
      else Execv ''/usr/bin/wc'' [''wc'', ''-l'']) \<and>
   status (proc_fd_main e (prog # ''-1'' # rest)) = Some
     (if fork_ret e \<noteq> 0
      then (if execv_ok e ''/usr/bin/lsof'' then Replaced ''/usr/bin/lsof'' [''/usr/bin/lsof'']
            else Exited 0)
      else (if execv_ok e ''/usr/bin/wc'' then Replaced ''/usr/bin/wc'' [''wc'', ''-l'']
            else Exited 0))"
  by (simp add: main_sentinel launched_def Let_def deref_def buf_get_def
      elevate_events2 proc_fd_newcaps_def usage_def)

text \<open>
  C3, as claimed: for every first argument other than \<^verbatim>\<open>-1\<close> the second element of
  the vector is \<^verbatim>\<open>/proc/\<close>, the argument, \<^verbatim>\<open>/fd\<close>. It fails for an argument of 23
  bytes: the path with its terminator needs 33 bytes, the buffer has 32, the second
  \<^verbatim>\<open>strcat\<close> writes past it, and no vector is built.
\<close>

theorem proc_fd_path_long_argument:
  "''00000000000000000000000'' \<noteq> ''-1'' \<and>
   status (proc_fd_main env_std [''elevated_proc_fd'', ''00000000000000000000000'']) =
     Some (Crashed BufferOverflow) \<and>
   procFDParam (proc_fd_main env_std [''elevated_proc_fd'', ''00000000000000000000000'']) \<noteq>
     Some (''/proc/'' @ ''00000000000000000000000'' @ ''/fd'') \<and>
   ls_args (proc_fd_main env_std [''elevated_proc_fd'', ''00000000000000000000000'']) ! 1 =
     Indeterminate"
  by (simp add: main_overflow slots64)

text \<open>
  C3, amended: for every first argument other than \<^verbatim>\<open>-1\<close> of at most 22 bytes, the
  vector is \<^verbatim>\<open>ls\<close>, the address of \<^verbatim>\<open>procFDParam\<close>, the null pointer, and
  \<^verbatim>\<open>procFDParam\<close> holds exactly \<^verbatim>\<open>/proc/\<close>, the argument, \<^verbatim>\<open>/fd\<close>.
\<close>

theorem proc_fd_path_exact:
  assumes "a \<noteq> ''-1''" and "length a \<le> 22"
  shows "procFDParam (proc_fd_main e (prog # a # rest)) = Some (''/proc/'' @ a @ ''/fd'') \<and>
         ls_args (proc_fd_main e (prog # a # rest)) ! 0 = Lit ''ls'' \<and>
         ls_args (proc_fd_main e (prog # a # rest)) ! 1 = Buf PROCFDPARAM \<and>
         ls_args (proc_fd_main e (prog # a # rest)) ! 2 = NULL \<and>
         read_argv (proc_fd_main e (prog # a # rest))
           (ls_args (proc_fd_main e (prog # a # rest))) = Inr [''ls'', ''/proc/'' @ a @ ''/fd'']"
  using assms
  by (simp add: main_pid launched_def Let_def deref_def buf_get_def)

text \<open>C3, amended, at the argument \<^verbatim>\<open>1234\<close>.\<close>

theorem proc_fd_path_exact_witness:
  "''1234'' \<noteq> ''-1'' \<and> length ''1234'' \<le> (22::nat) \<and>
   procFDParam (proc_fd_main env_std [''elevated_proc_fd'', ''1234'']) = Some ''/proc/1234/fd'' \<and>
   read_argv (proc_fd_main env_std [''elevated_proc_fd'', ''1234''])
     (ls_args (proc_fd_main env_std [''elevated_proc_fd'', ''1234''])) = Inr [''ls'', ''/proc/1234/fd'']"
  using proc_fd_path_exact [of "''1234''" env_std "''elevated_proc_fd''" "[]"]
  by simp

text \<open>
  C10. In the branch for an argument other than \<^verbatim>\<open>-1\<close>, the three writes into
  \<^verbatim>\<open>procFDParam\<close> stay inside its 32 bytes exactly when the argument has at most 22
  bytes (6 for \<^verbatim>\<open>/proc/\<close>, 3 for \<^verbatim>\<open>/fd\<close>, 1 for the terminator); for every longer
  argument a \<^verbatim>\<open>strcat\<close> writes past the end of the buffer.
\<close>

theorem proc_fd_buffer_bound:
  assumes "a \<noteq> ''-1''"
  shows "(status (proc_fd_build (prog # a # rest) (init e)) = None) = (length a \<le> 22) \<and>
         (status (proc_fd_build (prog # a # rest) (init e)) = Some (Crashed BufferOverflow))
           = (22 < length a) \<and>
         (length (''/proc/'' @ a @ ''/fd'') + 1 \<le> buf_size) = (length a \<le> 22)"
proof (cases "length a \<le> 22")
  case True
  with assms show ?thesis by (simp add: build_pid buf_size_def)
next
  case False
  with assms show ?thesis by (simp add: build_overflow buf_size_def)
qed

text \<open>C10 at an argument of 22 bytes, which fits, and at one of 23 bytes, which does not.\<close>

theorem proc_fd_buffer_bound_witness:
  "''0000000000000000000000'' \<noteq> ''-1'' \<and>
   status (proc_fd_build [''elevated_proc_fd'', ''0000000000000000000000''] (init env_std)) = None \<and>
   ''00000000000000000000000'' \<noteq> ''-1'' \<and>
   status (proc_fd_build [''elevated_proc_fd'', ''00000000000000000000000''] (init env_std)) =
     Some (Crashed BufferOverflow)"
  using proc_fd_buffer_bound [of "''0000000000000000000000''" "''elevated_proc_fd''" "[]" env_std]
        proc_fd_buffer_bound [of "''00000000000000000000000''" "''elevated_proc_fd''" "[]" env_std]
  by simp

subsection \<open>The pipe and the two branches\<close>

text \<open>
  C4, as claimed: after the fork the child's standard input is the read end of the pipe
  and the parent's standard output its write end. The source ignores what \<^verbatim>\<open>pipe\<close>
  returns and never compares the two descriptors with 0 and 1. \<^verbatim>\<open>pipe\<close> returns
  the lowest unused descriptors, so in a proxy started with descriptor 0 closed the read
  end is descriptor 0: in the child \<^verbatim>\<open>dup2(0, 0)\<close> changes nothing,
  \<^verbatim>\<open>close(0)\<close> closes the read end, and \<^verbatim>\<open>wc\<close> starts with no standard input.
\<close>

theorem pipe_composer_stdin_closed:
  "pipe_ret env_stdin_closed = Some (0, 3) \<and> fork_ret env_stdin_closed = 0 \<and>
   drop 9 (trace (proc_fd_main env_stdin_closed [''elevated_proc_fd'', ''1234''])) =
     [Fork, Dup2 0 0, Close 0, Close 3, Execv ''/usr/bin/wc'' [''wc'', ''-l'']] \<and>
   status (proc_fd_main env_stdin_closed [''elevated_proc_fd'', ''1234'']) =
     Some (Replaced ''/usr/bin/wc'' [''wc'', ''-l'']) \<and>
   fdtab (proc_fd_main env_stdin_closed [''elevated_proc_fd'', ''1234'']) 0 = None"
  by (simp add: main_pid launched_def Let_def dup2_table_def elevate_events2
      proc_fd_newcaps_def env_stdin_closed_fields)

text \<open>
  C4, amended: in \<^verbatim>\<open>elevated_proc_fd\<close>, in every run in which the command is built
  (the argument is \<^verbatim>\<open>-1\<close> or has at most 22 bytes) and \<^verbatim>\<open>pipe\<close> returns a read
  end \<open>r\<close> and a write end \<open>w\<close>, distinct and neither of them descriptor 0 or 1 (as it
  does when the standard descriptors are open at the start), there is one \<^verbatim>\<open>fork\<close>.
  After it the parent makes descriptor 1 the write end, closes \<open>w\<close> and \<open>r\<close>, and calls
  \<^verbatim>\<open>execv\<close> on the listing command; the child makes descriptor 0 the read end,
  closes \<open>r\<close> and \<open>w\<close>, and calls \<^verbatim>\<open>execv\<close> on \<^verbatim>\<open>/usr/bin/wc\<close>. These
  are all the calls after the fork: the parent does not wait for the child. At the
  \<^verbatim>\<open>execv\<close> neither pipe descriptor is open any more, and the other standard
  descriptor is what it was at the start.
\<close>

theorem pipe_composer_wiring:
  assumes "pipe_ret e = Some (r, w)" and "r \<noteq> w"
    and "r \<noteq> 0" and "r \<noteq> 1" and "w \<noteq> 0" and "w \<noteq> 1"
    and "a = ''-1'' \<or> length a \<le> 22"
  shows "length (filter (\<lambda>ev. ev = Fork) (trace (proc_fd_main e (prog # a # rest)))) = 1 \<and>
    dropWhile (\<lambda>ev. ev \<noteq> Fork) (trace (proc_fd_main e (prog # a # rest))) =
      (if fork_ret e \<noteq> 0
       then [Fork, Dup2 w 1, Close w, Close r,
             (if a = ''-1'' then Execv ''/usr/bin/lsof'' [''/usr/bin/lsof'']
              else Execv ''/bin/ls'' [''ls'', ''/proc/'' @ a @ ''/fd''])]
       else [Fork, Dup2 r 0, Close r, Close w, Execv ''/usr/bin/wc'' [''wc'', ''-l'']]) \<and>
    fdtab (proc_fd_main e (prog # a # rest)) 1 =
      (if fork_ret e \<noteq> 0 then Some PipeWrite else fds0 e 1) \<and>
    fdtab (proc_fd_main e (prog # a # rest)) 0 =
      (if fork_ret e \<noteq> 0 then fds0 e 0 else Some PipeRead) \<and>
    fdtab (proc_fd_main e (prog # a # rest)) r = None \<and>
    fdtab (proc_fd_main e (prog # a # rest)) w = None \<and>
    status (proc_fd_main e (prog # a # rest)) = Some
      (if fork_ret e \<noteq> 0
       then (if a = ''-1''
             then (if execv_ok e ''/usr/bin/lsof''
                   then Replaced ''/usr/bin/lsof'' [''/usr/bin/lsof''] else Exited 0)
             else (if execv_ok e ''/bin/ls''
                   then Replaced ''/bin/ls'' [''ls'', ''/proc/'' @ a @ ''/fd''] else Exited 0))
       else (if execv_ok e ''/usr/bin/wc''
             then Replaced ''/usr/bin/wc'' [''wc'', ''-l''] else Exited 0))"
proof (cases "a = ''-1''")
  case True
  show ?thesis
    using assms(1-6) True
    by (simp add: main_sentinel launched_def Let_def dup2_table_def elevate_events2
        proc_fd_newcaps_def)
next
  case False
  with assms(7) have len: "length a \<le> 22" by simp
  show ?thesis
    using assms(1-6) False
    by (simp add: main_pid [OF False len] launched_def Let_def dup2_table_def elevate_events2
        proc_fd_newcaps_def)
qed

text \<open>
  C4, amended, in the parent and in the child of a run with the pipe on descriptors 3
  and 4.
\<close>

theorem pipe_composer_wiring_witness:
  "pipe_ret env_std = Some (3, 4) \<and> pipe_ret env_child = Some (3, 4) \<and> length ''1234'' \<le> (22 :: nat) \<and>
   dropWhile (\<lambda>ev. ev \<noteq> Fork) (trace (proc_fd_main env_std [''elevated_proc_fd'', ''1234''])) =
     [Fork, Dup2 4 1, Close 4, Close 3, Execv ''/bin/ls'' [''ls'', ''/proc/1234/fd'']] \<and>
   fdtab (proc_fd_main env_std [''elevated_proc_fd'', ''1234'']) 1 = Some PipeWrite \<and>
   dropWhile (\<lambda>ev. ev \<noteq> Fork) (trace (proc_fd_main env_child [''elevated_proc_fd'', ''1234''])) =
     [Fork, Dup2 3 0, Close 3, Close 4, Execv ''/usr/bin/wc'' [''wc'', ''-l'']] \<and>
   fdtab (proc_fd_main env_child [''elevated_proc_fd'', ''1234'']) 0 = Some PipeRead"
  using pipe_composer_wiring [of env_std 3 4 "''1234''" "''elevated_proc_fd''" "[]"]
        pipe_composer_wiring [of env_child 3 4 "''1234''" "''elevated_proc_fd''" "[]"]
  by (simp add: env_defs)

subsection \<open>A rejected ambient raise\<close>

text \<open>
  The calls after a rejected raise. \<^verbatim>\<open>set_ambient_caps\<close> always returns to its
  caller. When the kernel rejects an ambient raise, the loop calls \<^verbatim>\<open>printf\<close> with
  \<^verbatim>\<open>Fail!\<close> once, attempts no further raise, and the proxy goes on: in
  \<^verbatim>\<open>elevated_netstat\<close> and \<^verbatim>\<open>elevated_docker_stats\<close> the next call is the
  \<^verbatim>\<open>execv\<close> of the wrapped command; in \<^verbatim>\<open>elevated_proc_fd\<close> (the command
  having been built) the pipe, the fork, the wiring and the \<^verbatim>\<open>execv\<close> follow.
\<close>

lemma rejected_raise_calls:
  "status (set_ambient_caps e caps n s) = status s \<and>
   ((\<exists>c \<in> set netstat_newcaps. prctl_ret e c \<noteq> 0) \<longrightarrow>
      trace (netstat_main e) =
        [CapGetProc, CapSetFlag netstat_newcaps, CapSetProc, CapFree] @
        (if prctl_ret e CAP_DAC_READ_SEARCH \<noteq> 0 then [PrctlAmbientRaise CAP_DAC_READ_SEARCH]
         else [PrctlAmbientRaise CAP_DAC_READ_SEARCH, PrctlAmbientRaise CAP_SYS_PTRACE]) @
        [Printf (''Fail!'' @ [CHR 0x0A]), Execv ''/bin/netstat'' [''netstat'', ''-tnap'']] \<and>
      status (netstat_main e) = Some
        (if execv_ok e ''/bin/netstat'' then Replaced ''/bin/netstat'' [''netstat'', ''-tnap'']
         else Exited 0)) \<and>
   ((\<exists>c \<in> set docker_newcaps. prctl_ret e c \<noteq> 0) \<longrightarrow>
      trace (docker_stats_main e) =
        [CapGetProc, CapSetFlag docker_newcaps, CapSetProc, CapFree] @
        (if prctl_ret e CAP_DAC_READ_SEARCH \<noteq> 0 then [PrctlAmbientRaise CAP_DAC_READ_SEARCH]
         else [PrctlAmbientRaise CAP_DAC_READ_SEARCH, PrctlAmbientRaise CAP_DAC_OVERRIDE]) @
        [Printf (''Fail!'' @ [CHR 0x0A]),
         Execv ''/usr/bin/docker'' [''docker'', ''stats'', ''--no-stream'', ''--format'',
           ''table {{.Container}}'' @ [CHR 0x09] @ ''{{.Name}}'' @ [CHR 0x09] @
           ''{{.CPUPerc}}'' @ [CHR 0x09] @ ''{{.MemUsage}}'']]) \<and>
   ((\<exists>c \<in> set proc_fd_newcaps. prctl_ret e c \<noteq> 0) \<and> (a = ''-1'' \<or> length a \<le> 22) \<longrightarrow>
      dropWhile (\<lambda>ev. ev \<noteq> Printf (''Fail!'' @ [CHR 0x0A]))
          (trace (proc_fd_main e (prog # a # rest))) =
        [Printf (''Fail!'' @ [CHR 0x0A]), Pipe, Fork] @
        (if fork_ret e \<noteq> 0
         then [Dup2 (snd (pipe_fds (proc_fd_main e (prog # a # rest)))) 1,
               Close (snd (pipe_fds (proc_fd_main e (prog # a # rest)))),
               Close (fst (pipe_fds (proc_fd_main e (prog # a # rest)))),
               (if a = ''-1'' then Execv ''/usr/bin/lsof'' [''/usr/bin/lsof'']
                else Execv ''/bin/ls'' [''ls'', ''/proc/'' @ a @ ''/fd''])]
         else [Dup2 (fst (pipe_fds (proc_fd_main e (prog # a # rest)))) 0,
               Close (fst (pipe_fds (proc_fd_main e (prog # a # rest)))),
               Close (snd (pipe_fds (proc_fd_main e (prog # a # rest)))),
               Execv ''/usr/bin/wc'' [''wc'', ''-l'']]))"
proof (intro conjI impI)
  show "status (set_ambient_caps e caps n s) = status s"
    by (simp add: set_ambient_caps_def stmt_def raise_each_status)
next
  assume "\<exists>c \<in> set netstat_newcaps. prctl_ret e c \<noteq> 0"
  then show "trace (netstat_main e) =
        [CapGetProc, CapSetFlag netstat_newcaps, CapSetProc, CapFree] @
        (if prctl_ret e CAP_DAC_READ_SEARCH \<noteq> 0 then [PrctlAmbientRaise CAP_DAC_READ_SEARCH]
         else [PrctlAmbientRaise CAP_DAC_READ_SEARCH, PrctlAmbientRaise CAP_SYS_PTRACE]) @
        [Printf (''Fail!'' @ [CHR 0x0A]), Execv ''/bin/netstat'' [''netstat'', ''-tnap'']]"
    by (auto simp add: netstat_final netstat_newcaps_def elevate_events2)
next
  show "status (netstat_main e) = Some
        (if execv_ok e ''/bin/netstat'' then Replaced ''/bin/netstat'' [''netstat'', ''-tnap'']
         else Exited 0)"
    by (simp add: netstat_final)
next
  assume "\<exists>c \<in> set docker_newcaps. prctl_ret e c \<noteq> 0"
  then show "trace (docker_stats_main e) =
        [CapGetProc, CapSetFlag docker_newcaps, CapSetProc, CapFree] @
        (if prctl_ret e CAP_DAC_READ_SEARCH \<noteq> 0 then [PrctlAmbientRaise CAP_DAC_READ_SEARCH]
         else [PrctlAmbientRaise CAP_DAC_READ_SEARCH, PrctlAmbientRaise CAP_DAC_OVERRIDE]) @
        [Printf (''Fail!'' @ [CHR 0x0A]),
         Execv ''/usr/bin/docker'' [''docker'', ''stats'', ''--no-stream'', ''--format'',
           ''table {{.Container}}'' @ [CHR 0x09] @ ''{{.Name}}'' @ [CHR 0x09] @
           ''{{.CPUPerc}}'' @ [CHR 0x09] @ ''{{.MemUsage}}'']]"
    by (auto simp add: docker_final docker_newcaps_def elevate_events2)
next
  assume h: "(\<exists>c \<in> set proc_fd_newcaps. prctl_ret e c \<noteq> 0) \<and> (a = ''-1'' \<or> length a \<le> 22)"
  show "dropWhile (\<lambda>ev. ev \<noteq> Printf (''Fail!'' @ [CHR 0x0A]))
          (trace (proc_fd_main e (prog # a # rest))) =
        [Printf (''Fail!'' @ [CHR 0x0A]), Pipe, Fork] @
        (if fork_ret e \<noteq> 0
         then [Dup2 (snd (pipe_fds (proc_fd_main e (prog # a # rest)))) 1,
               Close (snd (pipe_fds (proc_fd_main e (prog # a # rest)))),
               Close (fst (pipe_fds (proc_fd_main e (prog # a # rest)))),
               (if a = ''-1'' then Execv ''/usr/bin/lsof'' [''/usr/bin/lsof'']
                else Execv ''/bin/ls'' [''ls'', ''/proc/'' @ a @ ''/fd''])]
         else [Dup2 (fst (pipe_fds (proc_fd_main e (prog # a # rest)))) 0,
               Close (fst (pipe_fds (proc_fd_main e (prog # a # rest)))),
               Close (snd (pipe_fds (proc_fd_main e (prog # a # rest)))),
               Execv ''/usr/bin/wc'' [''wc'', ''-l'']])"
  proof (cases "a = ''-1''")
    case True
    with h show ?thesis
      by (auto simp add: main_sentinel launched_def Let_def elevate_events2 proc_fd_newcaps_def)
  next
    case False
    with h have len: "length a \<le> 22" by simp
    from h False show ?thesis
      by (auto simp add: main_pid [OF False len] launched_def Let_def elevate_events2
          proc_fd_newcaps_def)
  qed
qed

text \<open>
  Where the text goes. It is written to descriptor 1 when that is a terminal, or when
  the \<^verbatim>\<open>execv\<close> fails and \<open>main\<close> returns; otherwise it is still in the buffer of
  \<^verbatim>\<open>stdout\<close> when the image is replaced, and is never written.
\<close>

lemma rejected_raise_output:
  assumes "\<exists>c \<in> set netstat_newcaps. prctl_ret e c \<noteq> 0"
  shows "stdout_written (netstat_main e) =
     (if stdout_tty e \<or> \<not> execv_ok e ''/bin/netstat'' then ''Fail!'' @ [CHR 0x0A] else [])"
  using assms by (auto simp add: netstat_final netstat_newcaps_def elevate_text2)

text \<open>
  C5. Claimed: in every run in which an ambient raise is rejected, the proxy prints a
  failure message and goes on to the image replacement. The proxy does go on, and it
  does call \<^verbatim>\<open>printf\<close>; but in \<^verbatim>\<open>elevated_netstat\<close> started with its standard
  output not a terminal, under a kernel that rejects the raise and with an
  \<^verbatim>\<open>execv\<close> that succeeds, the text is still buffered when the image is replaced:
  nothing is written.
\<close>

theorem rejected_raise_message_lost:
  "prctl_ret env_noraise CAP_DAC_READ_SEARCH \<noteq> 0 \<and> \<not> stdout_tty env_noraise \<and>
   execv_ok env_noraise ''/bin/netstat'' \<and>
   trace (netstat_main env_noraise) =
     [CapGetProc, CapSetFlag [CAP_DAC_READ_SEARCH, CAP_SYS_PTRACE], CapSetProc, CapFree,
      PrctlAmbientRaise CAP_DAC_READ_SEARCH, Printf (''Fail!'' @ [CHR 0x0A]),
      Execv ''/bin/netstat'' [''netstat'', ''-tnap'']] \<and>
   status (netstat_main env_noraise) = Some (Replaced ''/bin/netstat'' [''netstat'', ''-tnap'']) \<and>
   stdout_written (netstat_main env_noraise) = []"
  by (simp add: netstat_final netstat_newcaps_def elevate_events2 elevate_text2
      env_noraise_fields)

subsection \<open>The order of argument inspection, elevation and launch\<close>

text \<open>
  C6, as claimed: in every run the elevator runs before any argument is inspected. It
  fails in \<^verbatim>\<open>elevated_proc_fd\<close>, whose \<open>main\<close> compares and copies
  \<^verbatim>\<open>argv[1]\<close> (lines 54 to 57) before it calls \<^verbatim>\<open>cap_get_proc\<close> (line 74).
\<close>

theorem argument_read_precedes_elevation:
  "\<not> elevation_first (trace (proc_fd_main env_std [''elevated_proc_fd'', ''1'']))"
  by (simp add: main_pid launched_def Let_def elevate_events2 proc_fd_newcaps_def env_std_fields)

text \<open>
  C6, amended: in every run of every variant the calls come in stage order: first the
  inspection of the argument (only \<^verbatim>\<open>elevated_proc_fd\<close> has one; the other two
  variants read no argument), then the elevator, then the pipe, fork and image
  replacement. Whenever a run reaches the last stage, the elevator's calls are all
  there, once each, before it.
\<close>

theorem stages_in_order:
  "sorted (map phase (trace (proc_fd_main e args))) \<and>
   sorted (map phase (trace (netstat_main e))) \<and>
   sorted (map phase (trace (docker_stats_main e))) \<and>
   filter (\<lambda>ev. phase ev = 0) (trace (netstat_main e)) = [] \<and>
   filter (\<lambda>ev. phase ev = 0) (trace (docker_stats_main e)) = [] \<and>
   (list_ex (\<lambda>ev. phase ev = 2) (trace (proc_fd_main e args)) \<longrightarrow>
      filter (\<lambda>ev. phase ev = 1) (trace (proc_fd_main e args)) = elevate_events e proc_fd_newcaps) \<and>
   filter (\<lambda>ev. phase ev = 1) (trace (netstat_main e)) = elevate_events e netstat_newcaps \<and>
   filter (\<lambda>ev. phase ev = 1) (trace (docker_stats_main e)) = elevate_events e docker_newcaps"
proof -
  have n: "sorted (map phase (trace (netstat_main e)))"
    "filter (\<lambda>ev. phase ev = 0) (trace (netstat_main e)) = []"
    "filter (\<lambda>ev. phase ev = 1) (trace (netstat_main e)) = elevate_events e netstat_newcaps"
    by (simp_all add: netstat_final netstat_newcaps_def sorted_append phase_elevate_events
        filter_elevate_events)
  have d: "sorted (map phase (trace (docker_stats_main e)))"
    "filter (\<lambda>ev. phase ev = 0) (trace (docker_stats_main e)) = []"
    "filter (\<lambda>ev. phase ev = 1) (trace (docker_stats_main e)) = elevate_events e docker_newcaps"
    by (simp_all add: docker_final docker_newcaps_def sorted_append phase_elevate_events
        filter_elevate_events)
  from n d stages_proc_fd [of e args] show ?thesis by simp
qed

text \<open>C6, amended, on a run of \<^verbatim>\<open>elevated_proc_fd 1\<close> that reaches the last stage.\<close>

theorem stages_in_order_witness:
  "list_ex (\<lambda>ev. phase ev = 2) (trace (proc_fd_main env_std [''elevated_proc_fd'', ''1''])) \<and>
   map phase (trace (proc_fd_main env_std [''elevated_proc_fd'', ''1''])) =
     [0, 0, 1, 1, 1, 1, 1, 1, 2, 2, 2, 2, 2, 2] \<and>
   filter (\<lambda>ev. phase ev = 1) (trace (proc_fd_main env_std [''elevated_proc_fd'', ''1''])) =
     [CapGetProc, CapSetFlag [CAP_DAC_READ_SEARCH, CAP_SYS_PTRACE], CapSetProc, CapFree,
      PrctlAmbientRaise CAP_DAC_READ_SEARCH, PrctlAmbientRaise CAP_SYS_PTRACE]"
proof -
  have ex: "list_ex (\<lambda>ev. phase ev = 2) (trace (proc_fd_main env_std [''elevated_proc_fd'', ''1'']))"
    by (simp add: main_pid launched_def Let_def)
  have ph: "map phase (trace (proc_fd_main env_std [''elevated_proc_fd'', ''1''])) =
     [0, 0, 1, 1, 1, 1, 1, 1, 2, 2, 2, 2, 2, 2]"
    by (simp add: main_pid launched_def Let_def elevate_events2 proc_fd_newcaps_def
        env_std_fields)
  from stages_in_order [of env_std "[''elevated_proc_fd'', ''1'']"] ex
  have "filter (\<lambda>ev. phase ev = 1) (trace (proc_fd_main env_std [''elevated_proc_fd'', ''1''])) =
      elevate_events env_std proc_fd_newcaps"
    by blast
  then show ?thesis
    using ex ph by (simp add: elevate_events2 proc_fd_newcaps_def env_std_fields)
qed

subsection \<open>Arguments that are not process identifiers\<close>

text \<open>
  C7, as claimed: a first argument that is neither \<^verbatim>\<open>-1\<close> nor the text of a small
  non-negative decimal integer is rejected. It fails for \<^verbatim>\<open>abc\<close>: the source
  compares the argument with \<^verbatim>\<open>-1\<close> and nothing else, so the proxy builds
  \<^verbatim>\<open>/proc/abc/fd\<close> and replaces itself with \<^verbatim>\<open>ls\<close> on it.
\<close>

theorem non_numeric_argument_accepted:
  "''abc'' \<noteq> ''-1'' \<and> \<not> decimal_text ''abc'' \<and>
   status (proc_fd_main env_std [''elevated_proc_fd'', ''abc'']) =
     Some (Replaced ''/bin/ls'' [''ls'', ''/proc/abc/fd''])"
  by (simp add: decimal_text_def main_pid launched_def Let_def env_std_fields)

text \<open>
  C7, amended: the proxy does not validate its argument. For every first argument other
  than \<^verbatim>\<open>-1\<close> of at most 22 bytes, decimal or not, no usage message is printed and
  the run ends in the \<^verbatim>\<open>execv\<close> of its branch: in the parent, that of \<^verbatim>\<open>ls\<close> on
  \<^verbatim>\<open>/proc/\<close>, the argument, \<^verbatim>\<open>/fd\<close>.
\<close>

theorem argument_never_validated:
  assumes "a \<noteq> ''-1''" and "length a \<le> 22"
  shows "Printf usage \<notin> set (trace (proc_fd_main e (prog # a # rest))) \<and>
    status (proc_fd_main e (prog # a # rest)) = Some
      (if fork_ret e \<noteq> 0
       then (if execv_ok e ''/bin/ls''
             then Replaced ''/bin/ls'' [''ls'', ''/proc/'' @ a @ ''/fd''] else Exited 0)
       else (if execv_ok e ''/usr/bin/wc''
             then Replaced ''/usr/bin/wc'' [''wc'', ''-l''] else Exited 0)) \<and>
    last (trace (proc_fd_main e (prog # a # rest))) =
      (if fork_ret e \<noteq> 0 then Execv ''/bin/ls'' [''ls'', ''/proc/'' @ a @ ''/fd'']
       else Execv ''/usr/bin/wc'' [''wc'', ''-l''])"
  using assms
  by (simp add: main_pid launched_def Let_def elevate_events2 proc_fd_newcaps_def usage_def)

text \<open>C7, amended, at the argument \<^verbatim>\<open>../self\<close>, which is not a decimal text.\<close>

theorem argument_never_validated_witness:
  "''../self'' \<noteq> ''-1'' \<and> length ''../self'' \<le> (22::nat) \<and> \<not> decimal_text ''../self'' \<and>
   status (proc_fd_main env_std [''elevated_proc_fd'', ''../self'']) =
     Some (Replaced ''/bin/ls'' [''ls'', ''/proc/../self/fd'']) \<and>
   last (trace (proc_fd_main env_std [''elevated_proc_fd'', ''../self''])) =
     Execv ''/bin/ls'' [''ls'', ''/proc/../self/fd'']"
  using argument_never_validated [of "''../self''" env_std "''elevated_proc_fd''" "[]"]
  by (simp add: env_std_fields decimal_text_def)

subsection \<open>A failed image replacement\<close>




subsection \<open>The vectors handed to \<^verbatim>\<open>execv\<close>\<close>

text \<open>
  C9, as claimed: element 0 of every vector handed to \<^verbatim>\<open>execv\<close> is the path of the
  target binary. It fails in \<^verbatim>\<open>elevated_netstat\<close>: the path is
  \<^verbatim>\<open>/bin/netstat\<close> and element 0 is \<^verbatim>\<open>netstat\<close>.
\<close>

theorem argv0_is_not_the_path:
  "\<not> list_all argv0_is_path (trace (netstat_main env_std))"
  by (simp add: netstat_final netstat_newcaps_def elevate_events2 env_std_fields)

text \<open>
  C9, amended: every vector handed to \<^verbatim>\<open>execv\<close>, in every variant and on every
  path, has fewer than 64 strings and ends in a null pointer, and its element 0 names
  the target binary: it is the last component of the path handed to \<^verbatim>\<open>execv\<close>
  (\<^verbatim>\<open>docker\<close>, \<^verbatim>\<open>netstat\<close>, \<^verbatim>\<open>ls\<close>, \<^verbatim>\<open>wc\<close>) or, for
  \<^verbatim>\<open>lsof\<close>, the path itself. The three constant vectors end in their null
  pointer. In \<^verbatim>\<open>elevated_proc_fd\<close> the vector and the two buffers it points into
  are, at the end of the run, what the builder left, and no run reads a vector past its
  end.
\<close>

theorem argument_vectors_well_formed:
  "list_all argv0_names_target (trace (docker_stats_main e)) \<and>
   list_all argv0_names_target (trace (netstat_main e)) \<and>
   list_all argv0_names_target (trace (proc_fd_main e args)) \<and>
   read_argv s docker_param = Inr [''docker'', ''stats'', ''--no-stream'', ''--format'',
       ''table {{.Container}}'' @ [CHR 0x09] @ ''{{.Name}}'' @ [CHR 0x09] @
       ''{{.CPUPerc}}'' @ [CHR 0x09] @ ''{{.MemUsage}}''] \<and>
   last docker_param = NULL \<and>
   read_argv s netstat_param = Inr [''netstat'', ''-tnap''] \<and> last netstat_param = NULL \<and>
   read_argv s wc_args = Inr [''wc'', ''-l''] \<and> last wc_args = NULL \<and>
   status (docker_stats_main e) \<noteq> Some (Crashed UnterminatedVector) \<and>
   status (netstat_main e) \<noteq> Some (Crashed UnterminatedVector) \<and>
   status (proc_fd_main e (prog # rest0)) \<noteq> Some (Crashed UnterminatedVector) \<and>
   lsbin (proc_fd_main e (prog # rest0)) = lsbin (proc_fd_build (prog # rest0) (init e)) \<and>
   procFDParam (proc_fd_main e (prog # rest0)) = procFDParam (proc_fd_build (prog # rest0) (init e)) \<and>
   ls_args (proc_fd_main e (prog # rest0)) = ls_args (proc_fd_build (prog # rest0) (init e)) \<and>
   (status (proc_fd_build (prog # rest0) (init e)) = None \<longrightarrow>
      (case read_argv (proc_fd_main e (prog # rest0)) (ls_args (proc_fd_main e (prog # rest0))) of
         Inl f \<Rightarrow> False
       | Inr as \<Rightarrow> length as < 64 \<and> ls_args (proc_fd_main e (prog # rest0)) ! length as = NULL))"
proof -
  have d: "list_all argv0_names_target (trace (docker_stats_main e))"
    "status (docker_stats_main e) \<noteq> Some (Crashed UnterminatedVector)"
    by (simp_all add: docker_final docker_newcaps_def names_elevate_events last_component_def)
  have n: "list_all argv0_names_target (trace (netstat_main e))"
    "status (netstat_main e) \<noteq> Some (Crashed UnterminatedVector)"
    by (simp_all add: netstat_final netstat_newcaps_def names_elevate_events last_component_def)
  have v: "read_argv s docker_param = Inr [''docker'', ''stats'', ''--no-stream'', ''--format'',
       ''table {{.Container}}'' @ [CHR 0x09] @ ''{{.Name}}'' @ [CHR 0x09] @
       ''{{.CPUPerc}}'' @ [CHR 0x09] @ ''{{.MemUsage}}'']"
    "last docker_param = NULL"
    "read_argv s netstat_param = Inr [''netstat'', ''-tnap'']" "last netstat_param = NULL"
    "read_argv s wc_args = Inr [''wc'', ''-l'']" "last wc_args = NULL"
    by (simp_all add: docker_param_def netstat_param_def wc_args_def deref_def)
  from d n v names_proc_fd [of e args] build_kept [of e prog rest0]
  show ?thesis by blast
qed

text \<open>C9, amended, on a run of \<^verbatim>\<open>elevated_proc_fd 1234\<close>.\<close>

theorem argument_vectors_well_formed_witness:
  "status (proc_fd_build [''elevated_proc_fd'', ''1234''] (init env_std)) = None \<and>
   read_argv (proc_fd_main env_std [''elevated_proc_fd'', ''1234''])
     (ls_args (proc_fd_main env_std [''elevated_proc_fd'', ''1234''])) =
     Inr [''ls'', ''/proc/1234/fd''] \<and>
   ls_args (proc_fd_main env_std [''elevated_proc_fd'', ''1234'']) ! 2 = NULL \<and>
   ls_args (proc_fd_main env_std [''elevated_proc_fd'', ''1234'']) =
     ls_args (proc_fd_build [''elevated_proc_fd'', ''1234''] (init env_std)) \<and>
   list_all argv0_names_target (trace (proc_fd_main env_std [''elevated_proc_fd'', ''1234'']))"
proof -
  have b: "status (proc_fd_build [''elevated_proc_fd'', ''1234''] (init env_std)) = None"
    by (simp add: build_pid)
  have r: "read_argv (proc_fd_main env_std [''elevated_proc_fd'', ''1234''])
     (ls_args (proc_fd_main env_std [''elevated_proc_fd'', ''1234''])) =
     Inr [''ls'', ''/proc/1234/fd'']"
    by (simp add: main_pid launched_def Let_def deref_def buf_get_def)
  note w = argument_vectors_well_formed [of env_std "[''elevated_proc_fd'', ''1234'']"
      "init env_std" "''elevated_proc_fd''" "[''1234'']"]
  from w b have c: "case read_argv (proc_fd_main env_std [''elevated_proc_fd'', ''1234''])
        (ls_args (proc_fd_main env_std [''elevated_proc_fd'', ''1234''])) of
         Inl f \<Rightarrow> False
       | Inr as \<Rightarrow> length as < 64 \<and>
           ls_args (proc_fd_main env_std [''elevated_proc_fd'', ''1234'']) ! length as = NULL"
    by blast
  have n: "ls_args (proc_fd_main env_std [''elevated_proc_fd'', ''1234'']) ! 2 = NULL"
    using c unfolding r by (simp add: numeral_2_eq_2)
  from w have k: "ls_args (proc_fd_main env_std [''elevated_proc_fd'', ''1234'']) =
     ls_args (proc_fd_build [''elevated_proc_fd'', ''1234''] (init env_std))"
    and l: "list_all argv0_names_target (trace (proc_fd_main env_std [''elevated_proc_fd'', ''1234'']))"
    by blast+
  from b r n k l show ?thesis by blast
qed

end
